theory Spec2Isabelle
  imports Complex_Main
begin

unbundle bit_operations_syntax

section \<open>Python values used by crawler.py\<close>

text \<open>
  Byte strings and the header strings of a response are lists of 8-bit characters
  (\<open>http.client\<close> decodes header lines as ISO-8859-1, one character per byte).
  The exceptions that the modelled code can raise are values of \<open>py_error\<close>.
\<close>

type_synonym bytes = string

datatype py_error =
    UnicodeDecodeError
  | UnicodeEncodeError
  | UnicodeError
  | ValueError
  | IndexError
  | TypeError
  | RecursionError
  | URLError

section \<open>Responses\<close>

text \<open>
  An \<open>addinfourl\<close> response: status code and message (both \<open>None\<close> when a response is
  built from the empty record of \<open>CacheHandler.load\<close>), the header list of its
  \<open>email.message.Message\<close>, the bytes still to be read from its file object, and its URL.
\<close>

record response =
  code :: "int option"
  msg :: "string option"
  headers :: "(string \<times> string) list"
  fp :: bytes
  url :: string

text \<open>\<open>fp.read(n)\<close>: at most \<open>n\<close> bytes, everything when \<open>n\<close> is negative.\<close>

definition read_n :: "int \<Rightarrow> bytes \<Rightarrow> bytes" where
  "read_n n data = (if n < 0 then data else take (nat n) data)"

section \<open>SizeLimitHandler\<close>

text \<open>
  \<open>def __init__(self, limit=5*1024^2)\<close>: in Python \<open>*\<close> binds tighter than the bitwise
  exclusive or \<open>^\<close>, so the default argument is \<open>(5*1024) ^ 2\<close>.
\<close>

definition SizeLimitHandler_default_limit :: int where
  "SizeLimitHandler_default_limit = (5 * 1024) XOR 2"

text \<open>
  \<open>SizeLimitHandler.http_response\<close>: \<open>data = resp.read(self.limit)\<close>, then the response is
  rebuilt around \<open>BytesIO(data)\<close> with the old headers, url, code and msg.
\<close>

definition SizeLimitHandler_http_response :: "int \<Rightarrow> response \<Rightarrow> response" where
  "SizeLimitHandler_http_response limit resp = resp\<lparr>fp := read_n limit (fp resp)\<rparr>"

section \<open>Strings\<close>

text \<open>
  \<open>str.lower()\<close> on the characters below U+0100: the ASCII capitals and the capitals of
  the Latin-1 supplement (U+00C0 to U+00DE without the multiplication sign) move to their small
  letters, every other character stays.
\<close>

definition upper_chars :: string where
  "upper_chars = ''ABCDEFGHIJKLMNOPQRSTUVWXYZ'' @
     [CHR 0xC0, CHR 0xC1, CHR 0xC2, CHR 0xC3, CHR 0xC4, CHR 0xC5, CHR 0xC6, CHR 0xC7,
      CHR 0xC8, CHR 0xC9, CHR 0xCA, CHR 0xCB, CHR 0xCC, CHR 0xCD, CHR 0xCE, CHR 0xCF,
      CHR 0xD0, CHR 0xD1, CHR 0xD2, CHR 0xD3, CHR 0xD4, CHR 0xD5, CHR 0xD6,
      CHR 0xD8, CHR 0xD9, CHR 0xDA, CHR 0xDB, CHR 0xDC, CHR 0xDD, CHR 0xDE]"

definition lower_chars :: string where
  "lower_chars = ''abcdefghijklmnopqrstuvwxyz'' @
     [CHR 0xE0, CHR 0xE1, CHR 0xE2, CHR 0xE3, CHR 0xE4, CHR 0xE5, CHR 0xE6, CHR 0xE7,
      CHR 0xE8, CHR 0xE9, CHR 0xEA, CHR 0xEB, CHR 0xEC, CHR 0xED, CHR 0xEE, CHR 0xEF,
      CHR 0xF0, CHR 0xF1, CHR 0xF2, CHR 0xF3, CHR 0xF4, CHR 0xF5, CHR 0xF6,
      CHR 0xF8, CHR 0xF9, CHR 0xFA, CHR 0xFB, CHR 0xFC, CHR 0xFD, CHR 0xFE]"

definition chr_lower :: "char \<Rightarrow> char" where
  "chr_lower c = (case map_of (zip upper_chars lower_chars) c of Some d \<Rightarrow> d | None \<Rightarrow> c)"

definition chr_upper :: "char \<Rightarrow> char" where
  "chr_upper c = (case map_of (zip lower_chars upper_chars) c of Some d \<Rightarrow> d | None \<Rightarrow> c)"

definition str_lower :: "string \<Rightarrow> string" where
  "str_lower s = map chr_lower s"

text \<open>
  \<open>str.capitalize()\<close>, used by \<open>Request.add_unredirected_header\<close> on its key. (For a first
  character of U+00B5, U+00DF or U+00FF Python's capital lies outside Latin-1; the keys that
  the handlers pass are ASCII literals.)
\<close>

definition str_capitalize :: "string \<Rightarrow> string" where
  "str_capitalize s = (case s of [] \<Rightarrow> [] | c # cs \<Rightarrow> chr_upper c # str_lower cs)"

text \<open>\<open>str.isspace()\<close> and \<open>str.strip()\<close> on the characters below U+0100.\<close>

definition is_space :: "char \<Rightarrow> bool" where
  "is_space c = (c \<in> set [CHR 0x09, CHR 0x0A, CHR 0x0B, CHR 0x0C, CHR 0x0D, CHR 0x1C, CHR 0x1D,
                            CHR 0x1E, CHR 0x1F, CHR 0x20, CHR 0x85, CHR 0xA0])"

definition str_strip :: "string \<Rightarrow> string" where
  "str_strip s = rev (dropWhile is_space (rev (dropWhile is_space s)))"

text \<open>
  \<open>int(s)\<close> for a string in base 10: surrounding white space, an optional sign, decimal digits
  with single underscores between digits; anything else raises ValueError.
\<close>

definition is_digit :: "char \<Rightarrow> bool" where
  "is_digit c = (c \<in> set ''0123456789'')"

fun digits_ok :: "string \<Rightarrow> bool" where
  "digits_ok [] = False"
| "digits_ok [c] = is_digit c"
| "digits_ok (c # d # cs) =
     (if is_digit c then (if d = CHR ''_'' then cs \<noteq> [] \<and> is_digit (hd cs) \<and> digits_ok cs
                          else digits_ok (d # cs))
      else False)"

definition digits_value :: "string \<Rightarrow> int" where
  "digits_value ds = foldl (\<lambda>acc c. 10 * acc + (of_char c - 48)) 0 (filter is_digit ds)"

definition py_int :: "string \<Rightarrow> py_error + int" where
  "py_int s =
     (let t = str_strip s;
          neg = (t \<noteq> [] \<and> hd t = CHR ''-'');
          ds = (if t \<noteq> [] \<and> (hd t = CHR ''-'' \<or> hd t = CHR ''+'') then tl t else t)
      in if digits_ok ds then Inr (if neg then - digits_value ds else digits_value ds)
         else Inl ValueError)"

section \<open>Header lists\<close>

text \<open>
  The headers of a response are an \<open>email.message.Message\<close>: an ordered list of (name, value)
  pairs. \<open>get\<close> and \<open>in\<close> compare names case-insensitively and \<open>get\<close> returns the first
  match; \<open>m[name] = val\<close> appends a pair and keeps every pair already present.
\<close>

type_synonym message = "(string \<times> string) list"

definition msg_get :: "message \<Rightarrow> string \<Rightarrow> string option" where
  "msg_get m name = map_option snd (find (\<lambda>kv. str_lower (fst kv) = str_lower name) m)"

definition msg_contains :: "message \<Rightarrow> string \<Rightarrow> bool" where
  "msg_contains m name = (msg_get m name \<noteq> None)"

definition msg_setitem :: "message \<Rightarrow> string \<Rightarrow> string \<Rightarrow> message" where
  "msg_setitem m name val = m @ [(name, val)]"

text \<open>
  \<open>urllib.request.parse_http_list\<close>: split at the commas outside double quotes (a backslash
  inside quotes escapes the next character), drop an empty last part, strip every part.
  The arguments of the loop are the rest of the input, \<open>res\<close>, \<open>part\<close>, \<open>escape\<close>
  and \<open>quote\<close>.
\<close>

fun parse_http_list_loop :: "string \<Rightarrow> string list \<Rightarrow> string \<Rightarrow> bool \<Rightarrow> bool \<Rightarrow> string list" where
  "parse_http_list_loop [] res part escape quote = (if part \<noteq> [] then res @ [part] else res)"
| "parse_http_list_loop (cur # s) res part escape quote =
     (if escape then parse_http_list_loop s res (part @ [cur]) False quote
      else if quote then
        (if cur = CHR 0x5C then parse_http_list_loop s res part True quote
         else if cur = CHR 0x22 then parse_http_list_loop s res (part @ [cur]) False False
         else parse_http_list_loop s res (part @ [cur]) False quote)
      else if cur = CHR '','' then parse_http_list_loop s (res @ [part]) [] False False
      else if cur = CHR 0x22 then parse_http_list_loop s res (part @ [cur]) False True
      else parse_http_list_loop s res (part @ [cur]) False False)"

definition parse_http_list :: "string \<Rightarrow> string list" where
  "parse_http_list s = map str_strip (parse_http_list_loop s [] [] False False)"

text \<open>
  \<open>urllib.request.parse_keqv_list\<close>: \<open>k, v = elt.split('=', 1)\<close>, then \<open>v[0]\<close> and
  \<open>v[-1]\<close> are read, which raises IndexError when \<open>v\<close> is empty; a later key overwrites
  an earlier one.
\<close>

fun parse_keqv_list_loop :: "string list \<Rightarrow> (string \<rightharpoonup> string) \<Rightarrow> py_error + (string \<rightharpoonup> string)" where
  "parse_keqv_list_loop [] parsed = Inr parsed"
| "parse_keqv_list_loop (elt # l) parsed =
     (if CHR ''='' \<in> set elt then
        (let k = takeWhile (\<lambda>c. c \<noteq> CHR ''='') elt;
             v = drop (length k + 1) elt
         in case v of
              [] \<Rightarrow> Inl IndexError
            | c # cs \<Rightarrow>
                parse_keqv_list_loop l
                  (parsed(k \<mapsto> (if c = CHR 0x22 \<and> last v = CHR 0x22 then butlast cs else v))))
      else Inl ValueError)"

definition parse_keqv_list :: "string list \<Rightarrow> py_error + (string \<rightharpoonup> string)" where
  "parse_keqv_list l = parse_keqv_list_loop l Map.empty"

section \<open>Requests\<close>

text \<open>
  A \<open>urllib.request.Request\<close>: its URL and its two header dictionaries. \<open>get_header\<close> looks
  in \<open>headers\<close> first and falls back to \<open>unredirected_hdrs\<close>, with the key as given;
  \<open>add_unredirected_header\<close> stores under the capitalised key.
\<close>

record request =
  full_url :: string
  req_headers :: "string \<rightharpoonup> string"
  unredirected_hdrs :: "string \<rightharpoonup> string"

definition get_header :: "request \<Rightarrow> string \<Rightarrow> string option" where
  "get_header req header_name =
     (case req_headers req header_name of
        Some v \<Rightarrow> Some v
      | None \<Rightarrow> unredirected_hdrs req header_name)"

definition add_unredirected_header :: "request \<Rightarrow> string \<Rightarrow> string \<Rightarrow> request" where
  "add_unredirected_header req key val =
     req\<lparr>unredirected_hdrs := (unredirected_hdrs req)(str_capitalize key \<mapsto> val)\<rparr>"

text \<open>
  \<open>Request(url, headers=hdrs)\<close>: every given header is stored with \<open>add_header\<close>, that is
  under its capitalised key. The dictionaries passed here are the \<open>headers\<close> of other
  requests, whose keys are capitalised already.
\<close>

definition Request :: "string \<Rightarrow> (string \<rightharpoonup> string) \<Rightarrow> request" where
  "Request u hdrs = \<lparr>full_url = u, req_headers = hdrs, unredirected_hdrs = Map.empty\<rparr>"

section \<open>CacheHandler\<close>

text \<open>
  The cache maps a URL to the tuple (code, msg, headers, data, timestamp). The text of the
  headers that \<open>save\<close> writes with \<open>unicode(headers)\<close> and \<open>load\<close> parses back with
  \<open>email.message_from_string\<close> is represented by the header list it denotes. Time is in
  seconds; one run of the pipeline reads the clock as \<open>now\<close>.
\<close>

record cache_record =
  rec_code :: "int option"
  rec_msg :: "string option"
  rec_headers :: message
  rec_data :: bytes
  rec_timestamp :: real

type_synonym cache = "string \<rightharpoonup> cache_record"

record CacheHandler =
  force_min :: "int option"
  private_cache :: bool

definition load :: "cache \<Rightarrow> string \<Rightarrow> cache_record" where
  "load c u =
     (case c u of
        Some r \<Rightarrow> r
      | None \<Rightarrow> \<lparr>rec_code = None, rec_msg = None, rec_headers = [], rec_data = [],
                  rec_timestamp = 0\<rparr>)"

definition save :: "cache \<Rightarrow> string \<Rightarrow> int option \<Rightarrow> string option \<Rightarrow> message \<Rightarrow> bytes \<Rightarrow> real \<Rightarrow> cache" where
  "save c u cd m hs data timestamp =
     c(u \<mapsto> \<lparr>rec_code = cd, rec_msg = m, rec_headers = hs, rec_data = data,
               rec_timestamp = timestamp\<rparr>)"

definition http_request :: "cache \<Rightarrow> request \<Rightarrow> request" where
  "http_request c req =
     (let hs = rec_headers (load c (full_url req));
          req1 = (case msg_get hs ''etag'' of
                    Some v \<Rightarrow> add_unredirected_header req ''If-None-Match'' v
                  | None \<Rightarrow> req)
      in case msg_get hs ''last-modified'' of
           Some v \<Rightarrow> add_unredirected_header req1 ''If-Modified-Since'' v
         | None \<Rightarrow> req1)"

text \<open>\<open>parse_http_list(headers.get(name, ()))\<close>: the empty tuple gives the empty list.\<close>

definition header_list :: "message \<Rightarrow> string \<Rightarrow> string list" where
  "header_list hs name = (case msg_get hs name of None \<Rightarrow> [] | Some v \<Rightarrow> parse_http_list v)"

definition cache_control_of :: "message \<Rightarrow> string list" where
  "cache_control_of hs = header_list hs ''cache-control'' @ header_list hs ''pragma''"

definition cc_list_of :: "message \<Rightarrow> string list" where
  "cc_list_of hs = filter (\<lambda>x. CHR ''='' \<notin> set x) (cache_control_of hs)"

definition cc_values_of :: "message \<Rightarrow> py_error + (string \<rightharpoonup> string)" where
  "cc_values_of hs = parse_keqv_list (filter (\<lambda>x. CHR ''='' \<in> set x) (cache_control_of hs))"

text \<open>The response that the end of \<open>http_open\<close> builds from the loaded record.\<close>

definition cached_response :: "cache_record \<Rightarrow> request \<Rightarrow> response" where
  "cached_response r req =
     \<lparr>code = rec_code r, msg = rec_msg r,
      headers = msg_setitem (rec_headers r) ''morss'' ''from_cache'',
      fp = rec_data r, url = full_url req\<rparr>"

definition conflict_response :: "cache_record \<Rightarrow> request \<Rightarrow> response" where
  "conflict_response r req =
     \<lparr>code = Some 409, msg = Some ''Conflict'',
      headers = msg_setitem (rec_headers r) ''Morss'' ''from_cache'',
      fp = [], url = full_url req\<rparr>"

text \<open>
  \<open>CacheHandler.http_open\<close>. \<open>Inr None\<close> is Python's \<open>return None\<close> (the next handler
  fetches), \<open>Inr (Some resp)\<close> a response that skips the network, \<open>Inl e\<close> an exception.
  \<open>cc_values\<close> is computed before the decision chain, as in the source.
\<close>

definition http_open :: "CacheHandler \<Rightarrow> real \<Rightarrow> cache \<Rightarrow> request \<Rightarrow> py_error + response option" where
  "http_open self now c req =
     (let r = load c (full_url req);
          cc_list = cc_list_of (rec_headers r)
      in case cc_values_of (rec_headers r) of
           Inl e \<Rightarrow> Inl e
         | Inr cc_values \<Rightarrow>
            (let cache_age = now - rec_timestamp r;
                 use_cache = Inr (Some (cached_response r req));
                 by_force_min =
                   (case force_min self of
                      Some fm \<Rightarrow> if real_of_int fm > cache_age then use_cache else Inr None
                    | None \<Rightarrow> Inr None)
             in if get_header req ''Morss'' = Some ''from_304'' then use_cache
                else if force_min self = Some (- 2) then
                  (if rec_code r \<noteq> None then use_cache
                   else Inr (Some (conflict_response r req)))
                else if rec_code r = None then Inr None
                else if force_min self = Some (- 1) then use_cache
                else if force_min self = Some 0 then Inr None
                else if rec_code r = Some 301 \<and> cache_age < 7 * 24 * 3600 then use_cache
                else if force_min self = None \<and>
                        (''no-cache'' \<in> set cc_list \<or> ''no-store'' \<in> set cc_list \<or>
                         (''private'' \<in> set cc_list \<and> \<not> private_cache self))
                  then Inr None
                else (case cc_values ''max-age'' of
                        Some v \<Rightarrow>
                          (case py_int v of
                             Inl e \<Rightarrow> Inl e
                           | Inr n \<Rightarrow> if real_of_int n > cache_age then use_cache else by_force_min)
                      | None \<Rightarrow> by_force_min)))"

text \<open>
  \<open>CacheHandler.http_response\<close>: the response handed on and the cache afterwards. The saved
  body is everything \<open>resp.read()\<close> returns; the response is rebuilt around the same bytes.
\<close>

definition http_response :: "CacheHandler \<Rightarrow> real \<Rightarrow> cache \<Rightarrow> request \<Rightarrow> response \<Rightarrow> response \<times> cache" where
  "http_response self now c req resp =
     (if code resp = Some 304 then (resp, c)
      else if (msg_contains (headers resp) ''cache-control'' \<or> msg_contains (headers resp) ''pragma'')
              \<and> force_min self = None
              \<and> (''no-cache'' \<in> set (cc_list_of (headers resp))
                 \<or> ''no-store'' \<in> set (cc_list_of (headers resp))
                 \<or> (''private'' \<in> set (cc_list_of (headers resp)) \<and> \<not> private_cache self))
        then (resp, c)
      else if msg_get (headers resp) ''Morss'' = Some ''from_cache'' then (resp, c)
      else (resp, save c (full_url req) (code resp) (msg resp) (headers resp) (fp resp) now))"

text \<open>Python's truth value of a status code: \<open>None\<close> and \<open>0\<close> are false.\<close>

definition truthy :: "int option \<Rightarrow> bool" where
  "truthy cd = (case cd of None \<Rightarrow> False | Some k \<Rightarrow> k \<noteq> 0)"

text \<open>
  \<open>CacheHandler.http_error_304\<close>. \<open>parent_open\<close> is \<open>self.parent.open\<close>, run on the cache as
  \<open>save\<close> left it; the result \<open>None\<close> is Python's \<open>return None\<close>, which leaves the 304 to the
  next handler.
\<close>

definition http_error_304 :: "(cache \<Rightarrow> request \<Rightarrow> 'r \<times> cache) \<Rightarrow> real \<Rightarrow> cache \<Rightarrow> request \<Rightarrow> 'r option \<times> cache" where
  "http_error_304 parent_open now c req =
     (let r = load c (full_url req) in
      if truthy (rec_code r) then
        (let c1 = save c (full_url req) (rec_code r) (rec_msg r) (rec_headers r) (rec_data r) now;
             new = add_unredirected_header (Request (full_url req) (req_headers req))
                     ''Morss'' ''from_304''
         in case parent_open c1 new of (out, c2) \<Rightarrow> (Some out, c2))
      else (None, c))"

section \<open>The opener around the cache handler\<close>

text \<open>
  What \<open>OpenerDirector.open\<close> does with the cache handler installed: the request hook, the
  open hook and (when it returns \<open>None\<close>) the network fetch \<open>net\<close>, the response hook, then
  \<open>HTTPErrorProcessor\<close>. A status outside 200..299 goes to the error handlers: 304 to
  \<open>http_error_304\<close> and, when that returns \<open>None\<close>, to the default handler, which raises
  HTTPError; 301, 302, 303 and 307 to the redirect handler, which is not followed here; every
  other status raises HTTPError. The first argument bounds the depth of re-entry through
  \<open>parent.open\<close>, as Python's recursion limit does.
\<close>

datatype outcome =
    Returned response
  | HTTPError response
  | Redirect response
  | Raised py_error

primrec opener_open :: "nat \<Rightarrow> (request \<Rightarrow> py_error + response) \<Rightarrow> CacheHandler \<Rightarrow> real \<Rightarrow> cache \<Rightarrow> request \<Rightarrow> outcome \<times> cache" where
  "opener_open 0 net self now c req = (Raised RecursionError, c)"
| "opener_open (Suc depth) net self now c req =
     (let req1 = http_request c req in
      case http_open self now c req1 of
        Inl e \<Rightarrow> (Raised e, c)
      | Inr opened \<Rightarrow>
         (case (case opened of Some resp \<Rightarrow> Inr resp | None \<Rightarrow> net req1) of
            Inl e \<Rightarrow> (Raised e, c)
          | Inr resp \<Rightarrow>
             (case http_response self now c req1 resp of
                (resp2, c2) \<Rightarrow>
                  (case code resp2 of
                     None \<Rightarrow> (Raised TypeError, c2)
                   | Some k \<Rightarrow>
                       if 200 \<le> k \<and> k < 300 then (Returned resp2, c2)
                       else if k = 304 then
                         (case http_error_304 (opener_open depth net self now) now c2 req1 of
                            (Some out, c3) \<Rightarrow> (out, c3)
                          | (None, c3) \<Rightarrow> (HTTPError resp2, c3))
                       else if k \<in> {301, 302, 303, 307} then (Redirect resp2, c2)
                       else (HTTPError resp2, c2)))))"


section \<open>Encoding detection\<close>

text \<open>\<open>bytes.lower()\<close>: only the ASCII capitals change.\<close>

definition bytes_lower :: "bytes \<Rightarrow> bytes" where
  "bytes_lower b =
     map (\<lambda>c. case map_of (zip ''ABCDEFGHIJKLMNOPQRSTUVWXYZ'' ''abcdefghijklmnopqrstuvwxyz'') c of
                Some d \<Rightarrow> d | None \<Rightarrow> c) b"

text \<open>
  \<open>re.search(key + b'["\']?([0-9a-zA-Z-]+)', data)\<close> and its group 1. At one position the
  pattern matches when \<open>key\<close> is followed by at most one quote character and then by at least one
  character of the class; the group is the longest run of class characters there (a quote is not
  in the class, so giving the quote back never helps). \<open>re_search\<close> tries the positions from
  the left.
\<close>

definition is_label_char :: "char \<Rightarrow> bool" where
  "is_label_char c =
     (c \<in> set ''0123456789abcdefghijklmnopqrstuvwxyzABCDEFGHIJKLMNOPQRSTUVWXYZ-'')"

definition is_quote :: "char \<Rightarrow> bool" where
  "is_quote c = (c = CHR 0x22 \<or> c = CHR 0x27)"

definition match_at :: "bytes \<Rightarrow> bytes \<Rightarrow> bytes option" where
  "match_at key s =
     (if take (length key) s = key then
        (let rest = drop (length key) s;
             rest1 = (case rest of [] \<Rightarrow> [] | c # cs \<Rightarrow> if is_quote c then cs else rest);
             g = takeWhile is_label_char rest1
         in if g = [] then None else Some g)
      else None)"

fun re_search :: "bytes \<Rightarrow> bytes \<Rightarrow> bytes option" where
  "re_search key [] = match_at key []"
| "re_search key (c # cs) =
     (case match_at key (c # cs) of Some g \<Rightarrow> Some g | None \<Rightarrow> re_search key cs)"

text \<open>
  The pattern as a relation, for comparison with \<open>match_at\<close>: \<open>s\<close> starts with \<open>key\<close>, an
  optional quote and the group \<open>g\<close>, a non-empty run of class characters that cannot be
  extended.
\<close>

definition matches_at :: "bytes \<Rightarrow> bytes \<Rightarrow> bytes \<Rightarrow> bool" where
  "matches_at key s g =
     (\<exists>q rest. s = key @ q @ g @ rest \<and> (q = [] \<or> q = [CHR 0x22] \<or> q = [CHR 0x27]) \<and>
        g \<noteq> [] \<and> (\<forall>c\<in>set g. is_label_char c) \<and> (rest = [] \<or> \<not> is_label_char (hd rest)))"

text \<open>
  \<open>detect_raw_encoding(data, resp)\<close>. Two library functions are parameters:
  \<open>parse_header\<close> is \<open>cgi.parse_header\<close> (the main value of a header line and the dictionary of
  its parameters) and \<open>chardet_detect data\<close> is \<open>chardet.detect(data)['encoding']\<close>, \<open>None\<close>
  when the detector names no encoding. \<open>data[:1000]\<close> is \<open>take 1000 data\<close> and
  \<open>data[-2000:]\<close> is \<open>drop (length data - 2000) data\<close>.
\<close>

definition detect_raw_encoding ::
  "(string \<Rightarrow> string \<times> (string \<rightharpoonup> string)) \<Rightarrow> (bytes \<Rightarrow> string option) \<Rightarrow>
   bytes \<Rightarrow> response option \<Rightarrow> string" where
  "detect_raw_encoding parse_header chardet_detect data resp =
     (case (case resp of
              None \<Rightarrow> None
            | Some r \<Rightarrow>
                (case msg_get (headers r) ''charset'' of
                   Some enc \<Rightarrow> Some enc
                 | None \<Rightarrow>
                     snd (parse_header (case msg_get (headers r) ''content-type'' of
                                          None \<Rightarrow> [] | Some v \<Rightarrow> v)) ''charset'')) of
        Some enc \<Rightarrow> enc
      | None \<Rightarrow>
         (case re_search ''charset='' (take 1000 data) of
            Some g \<Rightarrow> bytes_lower g
          | None \<Rightarrow>
             (case re_search ''encoding='' (take 1000 data) of
                Some g \<Rightarrow> bytes_lower g
              | None \<Rightarrow>
                 (case chardet_detect (drop (length data - 2000) data) of
                    Some enc \<Rightarrow> if enc \<noteq> [] \<and> enc \<noteq> ''ascii'' then enc else ''utf-8''
                  | None \<Rightarrow> ''utf-8''))))"

definition detect_encoding ::
  "(string \<Rightarrow> string \<times> (string \<rightharpoonup> string)) \<Rightarrow> (bytes \<Rightarrow> string option) \<Rightarrow>
   bytes \<Rightarrow> response option \<Rightarrow> string" where
  "detect_encoding parse_header chardet_detect data resp =
     (let enc = detect_raw_encoding parse_header chardet_detect data resp
      in if str_lower enc = ''gb2312'' then ''gbk'' else enc)"






section \<open>URL sanitising\<close>

text \<open>
  A Python \<open>str\<close> is a list of code points, a \<open>bytes\<close> object a list of
  characters as before. \<open>sanitize_url\<close> accepts both.
\<close>

type_synonym ustr = "nat list"

definition ustr_of :: "string \<Rightarrow> ustr" where
  "ustr_of s = map of_char s"

datatype url_arg = Str ustr | Bytes bytes

text \<open>
  \<open>is_ascii(string)\<close> (crawler.py, lines 137-146) tries \<open>string.encode('ascii')\<close>:
  it holds when every code point is below 128.
\<close>

definition is_ascii :: "ustr \<Rightarrow> bool" where
  "is_ascii s = list_all (\<lambda>c. c < 128) s"

text \<open>
  \<open>url.decode()\<close> is the strict UTF-8 decoder: it raises \<open>UnicodeDecodeError\<close> on a
  stray continuation byte, an overlong form, a surrogate, a value above U+10FFFF and a
  truncated sequence. The loop keeps the number of continuation bytes still needed, the value
  read so far, the range allowed for the next byte, and the code points decoded (in reverse).
\<close>

primrec utf8_loop :: "nat list \<Rightarrow> nat \<Rightarrow> nat \<Rightarrow> nat \<Rightarrow> nat \<Rightarrow> ustr \<Rightarrow> py_error + ustr" where
  "utf8_loop [] need acc lo hi out = (if need = 0 then Inr (rev out) else Inl UnicodeDecodeError)"
| "utf8_loop (b # bs) need acc lo hi out =
     (if need = 0 then
        (if b < 128 then utf8_loop bs 0 0 128 192 (b # out)
         else if 194 \<le> b \<and> b < 224 then utf8_loop bs 1 (b - 192) 128 192 out
         else if 224 \<le> b \<and> b < 240 then
           utf8_loop bs 2 (b - 224) (if b = 224 then 160 else 128) (if b = 237 then 160 else 192) out
         else if 240 \<le> b \<and> b < 245 then
           utf8_loop bs 3 (b - 240) (if b = 240 then 144 else 128) (if b = 244 then 144 else 192) out
         else Inl UnicodeDecodeError)
      else if lo \<le> b \<and> b < hi then
        (if need = 1 then utf8_loop bs 0 0 128 192 ((acc * 64 + (b - 128)) # out)
         else utf8_loop bs (need - 1) (acc * 64 + (b - 128)) 128 192 out)
      else Inl UnicodeDecodeError)"

definition utf8_decode :: "nat list \<Rightarrow> py_error + ustr" where
  "utf8_decode bs = utf8_loop bs 0 0 128 192 []"

text \<open>
  \<open>s.encode('utf-8')\<close> raises \<open>UnicodeEncodeError\<close> on a lone surrogate.
\<close>

fun utf8_encode :: "ustr \<Rightarrow> py_error + nat list" where
  "utf8_encode [] = Inr []"
| "utf8_encode (c # cs) =
     (if c < 128 then map_sum id (append [c]) (utf8_encode cs)
      else if c < 2048 then map_sum id (append [192 + c div 64, 128 + c mod 64]) (utf8_encode cs)
      else if 55296 \<le> c \<and> c < 57344 then Inl UnicodeEncodeError
      else if c < 65536 then
        map_sum id (append [224 + c div 4096, 128 + (c div 64) mod 64, 128 + c mod 64])
          (utf8_encode cs)
      else if c < 1114112 then
        map_sum id (append [240 + c div 262144, 128 + (c div 4096) mod 64,
                            128 + (c div 64) mod 64, 128 + c mod 64])
          (utf8_encode cs)
      else Inl UnicodeEncodeError)"

text \<open>
  \<open>urllib.parse.quote(bytes)\<close> with the default \<open>safe='/'\<close>: letters, digits and
  \<open>_.-~\<close> and \<open>/\<close> stay, every other byte becomes \<open>%XX\<close> with upper-case hex
  digits.
\<close>

definition always_safe :: "nat \<Rightarrow> bool" where
  "always_safe b = ((65 \<le> b \<and> b \<le> 90) \<or> (97 \<le> b \<and> b \<le> 122) \<or> (48 \<le> b \<and> b \<le> 57)
                     \<or> b = 95 \<or> b = 46 \<or> b = 45 \<or> b = 126)"

definition hex_digit :: "nat \<Rightarrow> nat" where
  "hex_digit d = (if d < 10 then 48 + d else 55 + d)"

definition quote_byte :: "nat \<Rightarrow> ustr" where
  "quote_byte b = (if always_safe b \<or> b = 47 then [b]
                   else [37, hex_digit (b div 16), hex_digit (b mod 16)])"

definition quote_from_bytes :: "nat list \<Rightarrow> ustr" where
  "quote_from_bytes bs = concat (map quote_byte bs)"


text \<open>
  Three functions of the Python library are parameters of the model: the \<open>idna\<close> codec
  (\<open>s.encode('idna')\<close>, which may raise \<open>UnicodeError\<close>), the normal form NFKC of
  \<open>unicodedata.normalize\<close>, and the test of \<open>urllib.parse._check_bracketed_host\<close> on the
  text between \<open>[\<close> and \<open>]\<close> (true when the text is accepted).
\<close>

record library =
  idna_encode :: "ustr \<Rightarrow> py_error + nat list"
  normalize_NFKC :: "ustr \<Rightarrow> ustr"
  check_bracketed_host :: "ustr \<Rightarrow> bool"

text \<open>
  The six parts of \<open>urllib.parse.urlparse\<close>.
\<close>

record parse_result =
  scheme :: ustr
  netloc :: ustr
  path :: ustr
  params :: ustr
  query :: ustr
  fragment :: ustr

text \<open>
  \<open>urllib.parse\<close> as of CPython 3.11: \<open>urlsplit\<close> strips leading C0 control characters
  and spaces, removes tab, carriage return and line feed, splits off a scheme (first letter
  ASCII, then letters, digits and \<open>+-.\<close>; lower-cased), a network location after \<open>//\<close>
  up to the first of \<open>/?#\<close>, raises \<open>ValueError\<close> on unbalanced or rejected brackets
  and on a location that NFKC turns into one with \<open>/?#@:\<close>, and splits the fragment and the
  query. \<open>urlparse\<close> splits the parameters off the last path segment for the schemes of
  \<open>uses_params\<close>.
\<close>

definition uses_netloc :: "ustr list" where
  "uses_netloc = map ustr_of ([] # [''ftp'', ''http'', ''gopher'', ''nntp'', ''telnet'',
     ''imap'', ''wais'', ''file'', ''mms'', ''https'', ''shttp'', ''snews'', ''prospero'',
     ''rtsp'', ''rtsps'', ''rtspu'', ''rsync'', ''svn'', ''svn+ssh'', ''sftp'', ''nfs'', ''git'',
     ''git+ssh'', ''ws'', ''wss''])"

definition uses_params :: "ustr list" where
  "uses_params = map ustr_of ([] # [''ftp'', ''hdl'', ''prospero'', ''http'', ''imap'',
     ''https'', ''shttp'', ''rtsp'', ''rtsps'', ''rtspu'', ''sip'', ''sips'', ''mms'', ''sftp'',
     ''tel''])"

definition is_scheme_char :: "nat \<Rightarrow> bool" where
  "is_scheme_char c = ((97 \<le> c \<and> c \<le> 122) \<or> (65 \<le> c \<and> c \<le> 90) \<or> (48 \<le> c \<and> c \<le> 57)
                        \<or> c = 43 \<or> c = 45 \<or> c = 46)"

definition is_ascii_alpha :: "nat \<Rightarrow> bool" where
  "is_ascii_alpha c = ((97 \<le> c \<and> c \<le> 122) \<or> (65 \<le> c \<and> c \<le> 90))"

definition ascii_lower :: "nat \<Rightarrow> nat" where
  "ascii_lower c = (if 65 \<le> c \<and> c \<le> 90 then c + 32 else c)"

definition split_first :: "nat \<Rightarrow> ustr \<Rightarrow> ustr \<times> ustr" where
  "split_first d s = (takeWhile (\<lambda>c. c \<noteq> d) s, drop 1 (dropWhile (\<lambda>c. c \<noteq> d) s))"

definition is_netloc_char :: "nat \<Rightarrow> bool" where
  "is_netloc_char c = (c \<noteq> 47 \<and> c \<noteq> 63 \<and> c \<noteq> 35)"

definition splitnetloc :: "ustr \<Rightarrow> ustr \<times> ustr" where
  "splitnetloc arg = (takeWhile is_netloc_char (drop 2 arg), dropWhile is_netloc_char (drop 2 arg))"

definition checknetloc :: "library \<Rightarrow> ustr \<Rightarrow> bool" where
  "checknetloc lib nl =
     (if nl = [] \<or> is_ascii nl then True
      else (let n = filter (\<lambda>c. c \<noteq> 64 \<and> c \<noteq> 58 \<and> c \<noteq> 35 \<and> c \<noteq> 63) nl;
                netloc2 = normalize_NFKC lib n
            in n = netloc2 \<or> list_all (\<lambda>c. c \<noteq> 47 \<and> c \<noteq> 63 \<and> c \<noteq> 35 \<and> c \<noteq> 64 \<and> c \<noteq> 58) netloc2))"

definition brackets_ok :: "library \<Rightarrow> ustr \<Rightarrow> bool" where
  "brackets_ok lib nl =
     (if (91 \<in> set nl \<and> 93 \<notin> set nl) \<or> (93 \<in> set nl \<and> 91 \<notin> set nl) then False
      else if 91 \<in> set nl \<and> 93 \<in> set nl then
        check_bracketed_host lib
          (takeWhile (\<lambda>c. c \<noteq> 93) (drop 1 (dropWhile (\<lambda>c. c \<noteq> 91) nl)))
      else True)"

definition clean :: "ustr \<Rightarrow> ustr" where
  "clean u = filter (\<lambda>c. c \<noteq> 9 \<and> c \<noteq> 13 \<and> c \<noteq> 10) (dropWhile (\<lambda>c. c \<le> 32) u)"

definition scheme_split :: "ustr \<Rightarrow> ustr \<times> ustr" where
  "scheme_split u =
     (let pre = takeWhile (\<lambda>c. c \<noteq> 58) u
      in if 58 \<in> set u \<and> pre \<noteq> [] \<and> is_ascii_alpha (hd u) \<and> list_all is_scheme_char pre
         then (map ascii_lower pre, drop (length pre + 1) u)
         else ([], u))"

definition netloc_split :: "ustr \<Rightarrow> ustr \<times> ustr" where
  "netloc_split u = (if take 2 u = [47, 47] then splitnetloc u else ([], u))"

definition fragment_split :: "ustr \<Rightarrow> ustr \<times> ustr" where
  "fragment_split u = (if 35 \<in> set u then split_first 35 u else (u, []))"

definition query_split :: "ustr \<Rightarrow> ustr \<times> ustr" where
  "query_split u = (if 63 \<in> set u then split_first 63 u else (u, []))"

definition urlsplit :: "library \<Rightarrow> ustr \<Rightarrow> py_error + (ustr \<times> ustr \<times> ustr \<times> ustr \<times> ustr)" where
  "urlsplit lib u =
     (let (sch, u1) = scheme_split (clean u);
          (nl, u2) = netloc_split u1
      in if \<not> brackets_ok lib nl then Inl ValueError
         else
           (let (u3, frag) = fragment_split u2;
                (u4, qry) = query_split u3
            in if checknetloc lib nl then Inr (sch, nl, u4, qry, frag) else Inl ValueError))"

definition splitparams :: "ustr \<Rightarrow> ustr \<times> ustr" where
  "splitparams arg =
     (let seg = rev (takeWhile (\<lambda>c. c \<noteq> 47) (rev arg));
          hd_part = take (length arg - length seg) arg
      in if 59 \<in> set seg
         then (hd_part @ takeWhile (\<lambda>c. c \<noteq> 59) seg, drop 1 (dropWhile (\<lambda>c. c \<noteq> 59) seg))
         else (arg, []))"

definition params_split :: "ustr \<Rightarrow> ustr \<Rightarrow> ustr \<times> ustr" where
  "params_split sch u = (if sch \<in> set uses_params \<and> 59 \<in> set u then splitparams u else (u, []))"

definition urlparse :: "library \<Rightarrow> ustr \<Rightarrow> py_error + parse_result" where
  "urlparse lib u =
     (case urlsplit lib u of
        Inl e \<Rightarrow> Inl e
      | Inr (sch, nl, u1, qry, frag) \<Rightarrow>
          (let (p, prm) = params_split sch u1
           in Inr \<lparr>scheme = sch, netloc = nl, path = p, params = prm, query = qry,
                    fragment = frag\<rparr>))"

text \<open>
  \<open>urlunsplit\<close> and \<open>urlunparse\<close> print the parts again.
\<close>

definition urlunsplit :: "ustr \<Rightarrow> ustr \<Rightarrow> ustr \<Rightarrow> ustr \<Rightarrow> ustr \<Rightarrow> ustr" where
  "urlunsplit sch nl arg qry frag =
     (let url1 = (if nl \<noteq> [] \<or> (sch \<noteq> [] \<and> sch \<in> set uses_netloc) \<or> take 2 arg = [47, 47]
                  then [47, 47] @ nl @ (if arg \<noteq> [] \<and> take 1 arg \<noteq> [47] then 47 # arg else arg)
                  else arg);
          url2 = (if sch \<noteq> [] then sch @ [58] @ url1 else url1);
          url3 = (if qry \<noteq> [] then url2 @ [63] @ qry else url2)
      in if frag \<noteq> [] then url3 @ [35] @ frag else url3)"

definition urlunparse :: "parse_result \<Rightarrow> ustr" where
  "urlunparse p =
     urlunsplit (scheme p) (netloc p)
       (if params p \<noteq> [] then path p @ [59] @ params p else path p) (query p) (fragment p)"

text \<open>
  \<open>sanitize_url(url)\<close> (crawler.py, lines 149-176). \<open>with_protocol\<close> is the test
  \<open>url.split(':', 1)[0] not in PROTOCOL\<close>, \<open>fix_slash\<close> the substitution
  of the pattern \<open>^(https?):/([^/])\<close>, which doubles a single slash behind a leading
  \<open>http:\<close> or \<open>https:\<close>, \<open>escape_spaces\<close> the replacement of spaces by \<open>%20\<close>, \<open>escape_parts\<close> the loop over the six parts: part 1 (the network
  location) goes through \<open>encode('idna').decode('ascii')\<close>, the others through
  \<open>quote(part.encode('utf-8'))\<close>, when they are not ASCII.
\<close>

definition PROTOCOL :: "ustr list" where
  "PROTOCOL = [ustr_of ''http'', ustr_of ''https'']"

definition fix_slash :: "ustr \<Rightarrow> ustr" where
  "fix_slash arg =
     (if take 7 arg = ustr_of ''https:/'' \<and> 7 < length arg \<and> arg ! 7 \<noteq> 47
        then take 7 arg @ [47] @ drop 7 arg
      else if take 6 arg = ustr_of ''http:/'' \<and> 6 < length arg \<and> arg ! 6 \<noteq> 47
        then take 6 arg @ [47] @ drop 6 arg
      else arg)"

definition escape_spaces :: "ustr \<Rightarrow> ustr" where
  "escape_spaces arg = concat (map (\<lambda>c. if c = 32 then [37, 50, 48] else [c]) arg)"

definition escape_netloc :: "library \<Rightarrow> ustr \<Rightarrow> py_error + ustr" where
  "escape_netloc lib s =
     (if is_ascii s then Inr s
      else (case idna_encode lib s of
              Inl e \<Rightarrow> Inl e
            | Inr b \<Rightarrow> if is_ascii b then Inr b else Inl UnicodeDecodeError))"

definition escape_part :: "ustr \<Rightarrow> py_error + ustr" where
  "escape_part s =
     (if is_ascii s then Inr s
      else (case utf8_encode s of Inl e \<Rightarrow> Inl e | Inr b \<Rightarrow> Inr (quote_from_bytes b)))"

definition escape_parts :: "library \<Rightarrow> parse_result \<Rightarrow> py_error + parse_result" where
  "escape_parts lib p =
     (case escape_part (scheme p) of Inl e \<Rightarrow> Inl e | Inr p0 \<Rightarrow>
      case escape_netloc lib (netloc p) of Inl e \<Rightarrow> Inl e | Inr p1 \<Rightarrow>
      case escape_part (path p) of Inl e \<Rightarrow> Inl e | Inr p2 \<Rightarrow>
      case escape_part (params p) of Inl e \<Rightarrow> Inl e | Inr p3 \<Rightarrow>
      case escape_part (query p) of Inl e \<Rightarrow> Inl e | Inr p4 \<Rightarrow>
      case escape_part (fragment p) of Inl e \<Rightarrow> Inl e | Inr p5 \<Rightarrow>
        Inr \<lparr>scheme = p0, netloc = p1, path = p2, params = p3, query = p4, fragment = p5\<rparr>)"

definition with_protocol :: "ustr \<Rightarrow> ustr" where
  "with_protocol u =
     (if takeWhile (\<lambda>c. c \<noteq> 58) u \<notin> set PROTOCOL then ustr_of ''http://'' @ u else u)"

definition sanitize_str :: "library \<Rightarrow> ustr \<Rightarrow> py_error + ustr" where
  "sanitize_str lib u =
     (case urlparse lib (escape_spaces (fix_slash (with_protocol u))) of
        Inl e \<Rightarrow> Inl e
      | Inr parts \<Rightarrow>
          (case escape_parts lib parts of
             Inl e \<Rightarrow> Inl e
           | Inr parts1 \<Rightarrow> Inr (urlunparse parts1)))"

definition sanitize_url :: "library \<Rightarrow> url_arg \<Rightarrow> py_error + ustr" where
  "sanitize_url lib arg =
     (case arg of
        Str s \<Rightarrow> sanitize_str lib s
      | Bytes b \<Rightarrow>
          (case utf8_decode (map of_char b) of
             Inl e \<Rightarrow> Inl e
           | Inr s \<Rightarrow> sanitize_str lib s))"









section \<open>Sample inputs\<close>

text \<open>A feed URL, a record stored for it, three handler configurations and four servers.\<close>

definition example_url :: string where
  "example_url = ''http://example.com/feed.xml''"



definition honour_headers :: CacheHandler where
  "honour_headers = \<lparr>force_min = None, private_cache = False\<rparr>"

definition cache_only :: CacheHandler where
  "cache_only = \<lparr>force_min = Some (- 2), private_cache = False\<rparr>"

definition cache_first :: CacheHandler where
  "cache_first = \<lparr>force_min = Some (- 1), private_cache = False\<rparr>"

definition server_304 :: "request \<Rightarrow> py_error + response" where
  "server_304 req = Inr \<lparr>code = Some 304, msg = Some ''Not Modified'', headers = [], fp = [],
                          url = full_url req\<rparr>"

definition server_morss :: "request \<Rightarrow> py_error + response" where
  "server_morss req = Inr \<lparr>code = Some 200, msg = Some ''OK'', headers = [(''Morss'', ''x'')],
                            fp = ''<rss/>'', url = full_url req\<rparr>"

definition server_empty_max_age :: "request \<Rightarrow> py_error + response" where
  "server_empty_max_age req = Inr \<lparr>code = Some 200, msg = Some ''OK'',
      headers = [(''Cache-Control'', ''max-age='')], fp = ''<rss/>'', url = full_url req\<rparr>"

text \<open>
  A header parser for lines without parameters and a detector that answers \<open>GB2312\<close>, as
  arguments for \<open>detect_encoding\<close>.
\<close>

definition parse_header_plain :: "string \<Rightarrow> string \<times> (string \<rightharpoonup> string)" where
  "parse_header_plain line = (str_strip line, Map.empty)"

definition chardet_GB2312 :: "bytes \<Rightarrow> string option" where
  "chardet_GB2312 data = Some ''GB2312''"


section \<open>Theorems\<close>

section \<open>The cache handler: auxiliary facts\<close>




lemma http_request_full_url: "full_url (http_request c req) = full_url req"
  by (simp add: http_request_def add_unredirected_header_def Let_def split: option.splits)












text \<open>
  A record whose Cache-Control header holds a directive with an empty value, here
  \<open>max-age=\<close>, is stored by the response hook, and from then on the open hook raises IndexError
  for its URL, because \<open>parse_keqv_list\<close> reads the first character of the empty value before the
  decision chain starts.
\<close>

lemma http_open_empty_directive_raises:
  "fst (opener_open 1 server_empty_max_age honour_headers 100 Map.empty
          (Request example_url Map.empty)) =
     Returned \<lparr>code = Some 200, msg = Some ''OK'', headers = [(''Cache-Control'', ''max-age='')],
               fp = ''<rss/>'', url = example_url\<rparr> \<and>
   http_open cache_only 200
       (snd (opener_open 1 server_empty_max_age honour_headers 100 Map.empty
               (Request example_url Map.empty)))
       (Request example_url Map.empty) = Inl IndexError"
  by code_simp

section \<open>C1: a 304 is answered from the cache\<close>



section \<open>C2: force_min = -2\<close>




section \<open>C3: no-store responses are not written\<close>



section \<open>C4: the from_cache marker in stored records\<close>

text \<open>
  C4 fails on the code. A server sends a 200 response with a header \<open>Morss: x\<close>, which the
  response hook stores. On the next open (here with \<open>force_min = -1\<close>) the open hook appends
  \<open>morss: from_cache\<close> behind the stored headers; the response hook then reads the first Morss
  header, \<open>x\<close>, does not recognise the response as coming from the cache, and saves it again:
  the stored record now holds \<open>morss: from_cache\<close>.
\<close>

theorem C4_from_cache_header_stored:
  "fst (opener_open 1 server_morss cache_first 100 Map.empty (Request example_url Map.empty)) =
     Returned \<lparr>code = Some 200, msg = Some ''OK'', headers = [(''Morss'', ''x'')],
               fp = ''<rss/>'', url = example_url\<rparr> \<and>
   snd (opener_open 1 server_morss cache_first 200
          (snd (opener_open 1 server_morss cache_first 100 Map.empty
                  (Request example_url Map.empty)))
          (Request example_url Map.empty)) example_url =
     Some \<lparr>rec_code = Some 200, rec_msg = Some ''OK'',
           rec_headers = [(''Morss'', ''x''), (''morss'', ''from_cache'')],
           rec_data = ''<rss/>'', rec_timestamp = 200\<rparr>"
  by code_simp

section \<open>C10: a 304 without a cached record\<close>

text \<open>
  C10. When the record loaded for the URL has the code \<open>None\<close> (no record is stored),
  \<open>http_error_304\<close> saves nothing, opens nothing and returns \<open>None\<close>; in the opener the 304
  then falls to the default error handler and reaches the caller as an HTTPError, with the cache
  unchanged.
\<close>

theorem C10_304_without_record:
  assumes "rec_code (load c (full_url req)) = None"
  shows "http_error_304 parent_open now c req = (None, c)
     \<and> (\<forall>resp. http_open self now c (http_request c req) = Inr None \<longrightarrow>
               net (http_request c req) = Inr resp \<longrightarrow> code resp = Some 304 \<longrightarrow>
               opener_open (Suc depth) net self now c req = (HTTPError resp, c))"
  using assms
  by (auto simp add: http_error_304_def truthy_def http_response_def http_request_full_url Let_def)

text \<open>C10 at the empty cache: the 304 of the server reaches the caller.\<close>

theorem C10_304_without_record_witness:
  "http_error_304 (opener_open 1 server_304 honour_headers 100) 100 Map.empty
       (Request example_url Map.empty) = (None, Map.empty) \<and>
   opener_open 1 server_304 honour_headers 100 Map.empty (Request example_url Map.empty) =
     (HTTPError \<lparr>code = Some 304, msg = Some ''Not Modified'', headers = [], fp = [],
                 url = example_url\<rparr>, Map.empty)"
proof -
  let ?req = "Request example_url Map.empty"
  have a: "rec_code (load Map.empty (full_url ?req)) = None" by (simp add: load_def)
  have b: "http_open honour_headers 100 Map.empty (http_request Map.empty ?req) = Inr None"
    by code_simp
  have c: "server_304 (http_request Map.empty ?req) =
     Inr \<lparr>code = Some 304, msg = Some ''Not Modified'', headers = [], fp = [], url = example_url\<rparr>"
    by (simp add: server_304_def http_request_full_url Request_def)
  from C10_304_without_record [OF a, of "opener_open 1 server_304 honour_headers 100" 100
      honour_headers server_304 0] b c
  show ?thesis by simp
qed

section \<open>C5 and C6: encoding detection\<close>

lemma takeWhile_run:
  assumes "\<forall>c\<in>set g. P c" "rest = [] \<or> \<not> P (hd rest)"
  shows "takeWhile P (g @ rest) = g"
  using assms by (cases rest) (auto simp: takeWhile_append2 takeWhile_eq_all_conv)

lemma takeWhile_decomp:
  "\<exists>rest. xs = takeWhile P xs @ rest \<and> (rest = [] \<or> \<not> P (hd rest))"
  by (metis takeWhile_dropWhile_id hd_dropWhile)

lemma not_label_quote: "is_quote c \<Longrightarrow> \<not> is_label_char c"
  by (auto simp: is_quote_def is_label_char_def)

text \<open>\<open>match_at\<close> computes the pattern: it returns \<open>g\<close> exactly when the pattern matches
  at the start of \<open>s\<close> with group \<open>g\<close>.\<close>

lemma match_at_iff: "match_at key s = Some g \<longleftrightarrow> matches_at key s g"
proof
  assume m: "match_at key s = Some g"
  then have k: "take (length key) s = key" by (simp add: match_at_def split: if_splits)
  define rest where "rest = drop (length key) s"
  have s: "s = key @ rest" using k by (metis append_take_drop_id rest_def)
  define rest1 where
    "rest1 = (case rest of [] \<Rightarrow> [] | c # cs \<Rightarrow> if is_quote c then cs else rest)"
  have g: "g = takeWhile is_label_char rest1" "g \<noteq> []"
    unfolding rest1_def rest_def
    using m k by (auto simp: match_at_def Let_def split: if_splits)
  obtain tl where tl: "rest1 = g @ tl" "tl = [] \<or> \<not> is_label_char (hd tl)"
    using takeWhile_decomp [of rest1 is_label_char] g by auto
  have lab: "\<forall>c\<in>set g. is_label_char c" using g by (auto dest: set_takeWhileD)
  have "\<exists>q. rest = q @ rest1 \<and> (q = [] \<or> q = [CHR 0x22] \<or> q = [CHR 0x27])"
    by (cases rest) (auto simp: rest1_def is_quote_def)
  then show "matches_at key s g"
    unfolding matches_at_def using s tl lab g(2) by auto
next
  assume "matches_at key s g"
  then obtain q rest where s: "s = key @ q @ g @ rest"
    and q: "q = [] \<or> q = [CHR 0x22] \<or> q = [CHR 0x27]"
    and g: "g \<noteq> []" "\<forall>c\<in>set g. is_label_char c" "rest = [] \<or> \<not> is_label_char (hd rest)"
    unfolding matches_at_def by blast
  have tw: "takeWhile is_label_char (g @ rest) = g" using g by (intro takeWhile_run) auto
  obtain a gs where ag: "g = a # gs" using g(1) by (cases g) auto
  then have a: "is_label_char a" using g(2) by simp
  then have nq: "\<not> is_quote a" using not_label_quote by blast
  from q show "match_at key s = Some g"
  proof (elim disjE)
    assume "q = []"
    then show ?thesis using s tw g(1) nq ag by (simp add: match_at_def)
  next
    assume "q = [CHR 0x22]"
    then show ?thesis using s tw g(1) by (simp add: match_at_def is_quote_def)
  next
    assume "q = [CHR 0x27]"
    then show ?thesis using s tw g(1) by (simp add: match_at_def is_quote_def)
  qed
qed

text \<open>\<open>re_search\<close> returns the group of the leftmost position at which the pattern matches.\<close>

lemma re_search_leftmost:
  "re_search key d = Some g \<longleftrightarrow>
     (\<exists>pre s. d = pre @ s \<and> matches_at key s g \<and>
        (\<forall>p t. d = p @ t \<longrightarrow> length p < length pre \<longrightarrow> (\<forall>g'. \<not> matches_at key t g')))"
proof (induction d)
  case Nil
  show ?case by (simp add: match_at_iff)
next
  case (Cons c cs)
  show ?case
  proof (cases "match_at key (c # cs)")
    case (Some g0)
    then have m0: "matches_at key (c # cs) g0" by (simp add: match_at_iff)
    show ?thesis
    proof
      assume "re_search key (c # cs) = Some g"
      then have "g = g0" using Some by simp
      then have "c # cs = [] @ (c # cs) \<and> matches_at key (c # cs) g \<and>
        (\<forall>p t. c # cs = p @ t \<longrightarrow> length p < length ([]::bytes) \<longrightarrow>
           (\<forall>g'. \<not> matches_at key t g'))"
        using m0 by simp
      then show "\<exists>pre s. c # cs = pre @ s \<and> matches_at key s g \<and>
        (\<forall>p t. c # cs = p @ t \<longrightarrow> length p < length pre \<longrightarrow> (\<forall>g'. \<not> matches_at key t g'))"
        by blast
    next
      assume "\<exists>pre s. c # cs = pre @ s \<and> matches_at key s g \<and>
        (\<forall>p t. c # cs = p @ t \<longrightarrow> length p < length pre \<longrightarrow> (\<forall>g'. \<not> matches_at key t g'))"
      then obtain pre s where ps: "c # cs = pre @ s" "matches_at key s g"
        and least: "\<forall>p t. c # cs = p @ t \<longrightarrow> length p < length pre \<longrightarrow>
                      (\<forall>g'. \<not> matches_at key t g')"
        by blast
      have "pre = []"
      proof (rule ccontr)
        assume "pre \<noteq> []"
        then have "length [] < length pre" by simp
        with least [rule_format, of "[]" "c # cs"] m0 show False by simp
      qed
      then have "matches_at key (c # cs) g" using ps by simp
      then have "match_at key (c # cs) = Some g" by (simp add: match_at_iff)
      then show "re_search key (c # cs) = Some g" by simp
    qed
  next
    case None
    then have n0: "\<And>g'. \<not> matches_at key (c # cs) g'" by (simp add: match_at_iff [symmetric])
    have "re_search key (c # cs) = re_search key cs" using None by simp
    also have "\<dots> = Some g \<longleftrightarrow> (\<exists>pre s. cs = pre @ s \<and> matches_at key s g \<and>
        (\<forall>p t. cs = p @ t \<longrightarrow> length p < length pre \<longrightarrow> (\<forall>g'. \<not> matches_at key t g')))"
      by (rule Cons.IH)
    also have "\<dots> \<longleftrightarrow> (\<exists>pre s. c # cs = pre @ s \<and> matches_at key s g \<and>
        (\<forall>p t. c # cs = p @ t \<longrightarrow> length p < length pre \<longrightarrow> (\<forall>g'. \<not> matches_at key t g')))"
      (is "?L \<longleftrightarrow> ?R")
    proof
      assume ?L
      then obtain pre s where ps: "cs = pre @ s" "matches_at key s g"
        and least: "\<forall>p t. cs = p @ t \<longrightarrow> length p < length pre \<longrightarrow>
                      (\<forall>g'. \<not> matches_at key t g')"
        by blast
      have "\<forall>p t. c # cs = p @ t \<longrightarrow> length p < length (c # pre) \<longrightarrow>
              (\<forall>g'. \<not> matches_at key t g')"
      proof (intro allI impI)
        fix p t g'
        assume pt: "c # cs = p @ t" and len: "length p < length (c # pre)"
        show "\<not> matches_at key t g'"
        proof (cases p)
          case Nil
          then show ?thesis using pt n0 by simp
        next
          case (Cons a p')
          then have "cs = p' @ t" "length p' < length pre" using pt len by auto
          then show ?thesis using least by blast
        qed
      qed
      moreover have "c # cs = (c # pre) @ s" using ps by simp
      ultimately show ?R using ps(2) by blast
    next
      assume ?R
      then obtain pre s where ps: "c # cs = pre @ s" "matches_at key s g"
        and least: "\<forall>p t. c # cs = p @ t \<longrightarrow> length p < length pre \<longrightarrow>
                      (\<forall>g'. \<not> matches_at key t g')"
        by blast
      have "pre \<noteq> []" using ps n0 by auto
      then obtain pre' where pre: "pre = c # pre'" using ps(1) by (cases pre) auto
      then have 1: "cs = pre' @ s" using ps by simp
      have "\<forall>p t. cs = p @ t \<longrightarrow> length p < length pre' \<longrightarrow> (\<forall>g'. \<not> matches_at key t g')"
      proof (intro allI impI)
        fix p t g'
        assume "cs = p @ t" "length p < length pre'"
        then have "c # cs = (c # p) @ t" "length (c # p) < length pre" using pre by auto
        then show "\<not> matches_at key t g'" using least by blast
      qed
      with 1 ps(2) show ?L by blast
    qed
    finally show ?thesis .
  qed
qed

lemma chr_lower_g: "chr_lower c = CHR ''g'' \<longleftrightarrow> c = CHR ''g'' \<or> c = CHR ''G''"
  by (auto simp: chr_lower_def upper_chars_def lower_chars_def split: if_splits)

lemma chr_lower_b: "chr_lower c = CHR ''b'' \<longleftrightarrow> c = CHR ''b'' \<or> c = CHR ''B''"
  by (auto simp: chr_lower_def upper_chars_def lower_chars_def split: if_splits)

lemma chr_lower_digit:
  "chr_lower c = CHR ''1'' \<longleftrightarrow> c = CHR ''1''"
  "chr_lower c = CHR ''2'' \<longleftrightarrow> c = CHR ''2''"
  "chr_lower c = CHR ''3'' \<longleftrightarrow> c = CHR ''3''"
  by (auto simp: chr_lower_def upper_chars_def lower_chars_def split: if_splits)

text \<open>The strings that \<open>lower()\<close> sends to \<open>gb2312\<close> are its four spellings in capitals
  and small letters.\<close>

lemma str_lower_gb2312:
  "str_lower s = ''gb2312'' \<longleftrightarrow> s \<in> {''gb2312'', ''Gb2312'', ''gB2312'', ''GB2312''}"
  by (auto simp: str_lower_def map_eq_Cons_conv chr_lower_g chr_lower_b chr_lower_digit)


text \<open>
  C6. When the raw waterfall yields \<open>gb2312\<close> in any of its spellings, \<open>detect_encoding\<close>
  returns \<open>gbk\<close>; on every other input it returns the label of the raw waterfall unchanged.
\<close>

theorem C6_gb2312_to_gbk:
  "(detect_raw_encoding parse_header chardet_detect data resp
      \<in> {''gb2312'', ''Gb2312'', ''gB2312'', ''GB2312''} \<longrightarrow>
      detect_encoding parse_header chardet_detect data resp = ''gbk'') \<and>
   (detect_raw_encoding parse_header chardet_detect data resp
      \<notin> {''gb2312'', ''Gb2312'', ''gB2312'', ''GB2312''} \<longrightarrow>
      detect_encoding parse_header chardet_detect data resp =
        detect_raw_encoding parse_header chardet_detect data resp)"
  unfolding detect_encoding_def Let_def str_lower_gb2312 by simp

text \<open>C6 at a feed for which the detector says \<open>GB2312\<close>, and at one that declares UTF-8.\<close>

theorem C6_gb2312_to_gbk_witness:
  "detect_raw_encoding parse_header_plain chardet_GB2312 ''<rss/>'' None = ''GB2312'' \<and>
   detect_encoding parse_header_plain chardet_GB2312 ''<rss/>'' None = ''gbk'' \<and>
   detect_raw_encoding parse_header_plain chardet_GB2312
       ''<?xml version=\"1.0\" encoding=\"UTF-8\"?>'' None = ''utf-8'' \<and>
   detect_encoding parse_header_plain chardet_GB2312
       ''<?xml version=\"1.0\" encoding=\"UTF-8\"?>'' None = ''utf-8''"
proof -
  have a: "detect_raw_encoding parse_header_plain chardet_GB2312 ''<rss/>'' None = ''GB2312''"
    by code_simp
  have b: "detect_raw_encoding parse_header_plain chardet_GB2312
       ''<?xml version=\"1.0\" encoding=\"UTF-8\"?>'' None = ''utf-8''"
    by code_simp
  from C6_gb2312_to_gbk [of parse_header_plain chardet_GB2312 "''<rss/>''" None]
       C6_gb2312_to_gbk [of parse_header_plain chardet_GB2312
          "''<?xml version=\"1.0\" encoding=\"UTF-8\"?>''" None]
       a b
  show ?thesis by simp
qed

section \<open>URL sanitising: auxiliary facts\<close>









lemma urlsplit_eq:
  "urlsplit lib y =
     (let ss = scheme_split (clean y);
          nn = netloc_split (snd ss);
          ff = fragment_split (snd nn);
          qq = query_split (fst ff)
      in if brackets_ok lib (fst nn) \<and> checknetloc lib (fst nn)
         then Inr (fst ss, fst nn, fst qq, snd qq, snd ff) else Inl ValueError)"
  by (simp add: urlsplit_def Let_def case_prod_beta)








lemma urlparse_eq:
  "urlparse lib y =
     (let ss = scheme_split (clean y);
          nn = netloc_split (snd ss);
          ff = fragment_split (snd nn);
          qq = query_split (fst ff);
          pp = params_split (fst ss) (fst qq)
      in if brackets_ok lib (fst nn) \<and> checknetloc lib (fst nn)
         then Inr \<lparr>scheme = fst ss, netloc = fst nn, path = fst pp, params = snd pp,
                   query = snd qq, fragment = snd ff\<rparr>
         else Inl ValueError)"
  by (simp add: urlparse_def urlsplit_eq Let_def case_prod_beta)

lemma ascii_lower_ascii: "c < 128 \<Longrightarrow> ascii_lower c < 128"
  by (simp add: ascii_lower_def)




































































text \<open>
  Two arguments on which \<open>sanitize_url\<close> raises whatever the library functions do: bytes
  that are not UTF-8, and a string with a lone surrogate in its path.
\<close>

lemma sanitize_url_bad_utf8: "sanitize_url lib (Bytes [CHR 0xFF]) = Inl UnicodeDecodeError"
  by (simp add: sanitize_url_def utf8_decode_def)

lemma sanitize_url_lone_surrogate:
  "sanitize_url lib (Str (ustr_of ''http://a/'' @ [55296])) = Inl UnicodeEncodeError"
  by (simp add: sanitize_url_def sanitize_str_def with_protocol_def PROTOCOL_def ustr_of_def
      fix_slash_def escape_spaces_def urlparse_eq clean_def scheme_split_def netloc_split_def
      splitnetloc_def is_netloc_char_def is_scheme_char_def is_ascii_alpha_def ascii_lower_def
      fragment_split_def query_split_def params_split_def splitparams_def uses_params_def
      brackets_ok_def checknetloc_def escape_parts_def
      escape_part_def escape_netloc_def is_ascii_def Let_def)

section \<open>C8: when sanitize_url returns\<close>





section \<open>C7: sanitising twice\<close>




section \<open>C9: the default size limit\<close>

text \<open>
  C9, as stated, gives 5114 bytes for the default cap. The default argument \<open>5*1024^2\<close> is
  indeed an exclusive or, but its value is not 5114.
\<close>

theorem C9_default_limit_not_5114: "SizeLimitHandler_default_limit \<noteq> 5114"
  by (simp add: SizeLimitHandler_default_limit_def)

text \<open>
  C9 (amended): the default constructor argument \<open>5*1024^2\<close> is \<open>(5*1024) XOR 2\<close> and a
  SizeLimitHandler built with no argument caps the body at exactly 5122 bytes: its response hook
  keeps the first 5122 bytes of a longer body and the whole of a shorter one.
\<close>

theorem C9_default_limit_5122:
  "SizeLimitHandler_default_limit = 5122 \<and>
   fp (SizeLimitHandler_http_response SizeLimitHandler_default_limit resp) = take 5122 (fp resp) \<and>
   length (fp (SizeLimitHandler_http_response SizeLimitHandler_default_limit resp))
     = min (length (fp resp)) 5122"
  by (simp add: SizeLimitHandler_default_limit_def SizeLimitHandler_http_response_def read_n_def)

end
